theory Spec2Isabelle
  imports Main "HOL-Library.Sublist"
begin

section \<open>Sidebar navigation (Navigation, getRoute)\<close>

text \<open>
  The route table \<open>AppRoutes\<close> lives in \<open>@/config/routes\<close> and the item table
  \<open>navItems\<close> in \<open>./config\<close>; both are imported by the component, so the model takes
  them as parameters. Of \<open>AppRoutes\<close> the component reads
  \<open>AppRoutes.transactions.history\<close> and \<open>AppRoutes.transactions.queue\<close> in
  \<open>getRoute\<close>; of a navigation item, \<open>getRoute\<close> reads \<open>href\<close>.
\<close>

record AppRoutes =
  transactions_history :: string
  transactions_queue :: string

record NavItem =
  href :: string

text \<open>
  \<open>Boolean(useTxQueue().page?.results.length)\<close>: the page may be absent
  (\<open>undefined\<close>), and a length of zero is falsy.
\<close>

definition hasQueuedTxs :: "'tx list option \<Rightarrow> bool" where
  "hasQueuedTxs page = (case page of None \<Rightarrow> False | Some results \<Rightarrow> length results \<noteq> 0)"

text \<open>\<open>Boolean(useRecoveryQueue().length)\<close>\<close>

definition hasRecoveryTxs :: "'r list \<Rightarrow> bool" where
  "hasRecoveryTxs recoveryQueue = (length recoveryQueue \<noteq> 0)"

text \<open>
  \<open>getRoute\<close> closes over the two booleans; it returns the queue route for the history
  route when one of them holds, and the \<open>href\<close> it was given otherwise.
\<close>

definition getRoute :: "AppRoutes \<Rightarrow> bool \<Rightarrow> bool \<Rightarrow> string \<Rightarrow> string" where
  "getRoute routes queued recovering h =
     (if h = transactions_history routes \<and> (queued \<or> recovering)
      then transactions_queue routes
      else h)"

text \<open>
  The link target rendered for an item of \<open>navItems\<close>:
  \<open>pathname: getRoute(item.href)\<close>.
\<close>

definition itemPathname :: "AppRoutes \<Rightarrow> 'tx list option \<Rightarrow> 'r list \<Rightarrow> NavItem \<Rightarrow> string" where
  "itemPathname routes page recoveryQueue item =
     getRoute routes (hasQueuedTxs page) (hasRecoveryTxs recoveryQueue) (href item)"

definition Navigation :: "AppRoutes \<Rightarrow> 'tx list option \<Rightarrow> 'r list \<Rightarrow> NavItem list \<Rightarrow> string list" where
  "Navigation routes page recoveryQueue navItems =
     map (itemPathname routes page recoveryQueue) navItems"

section \<open>JavaScript strings\<close>

text \<open>
  Strings are modelled as lists of characters. \<open>s.includes(t)\<close> holds when \<open>t\<close> occurs
  in \<open>s\<close> as a contiguous run of characters; \<open>s.indexOf(t) > -1\<close> is the same test.
\<close>

definition String_includes :: "string \<Rightarrow> string \<Rightarrow> bool" where
  "String_includes s searchString = sublist searchString s"

text \<open>
  An absent argument of \<open>includes\<close> is converted to the string \<open>undefined\<close>, as
  JavaScript's \<open>ToString\<close> does.
\<close>

definition ToString :: "string option \<Rightarrow> string" where
  "ToString v = (case v of None \<Rightarrow> ''undefined'' | Some s \<Rightarrow> s)"

text \<open>
  The two string functions of the suggestion filter on ASCII strings, for the examples
  below, which are all ASCII. There JavaScript's \<open>toLowerCase\<close> moves the letters \<open>A\<close> to
  \<open>Z\<close> (codes 65 to 90) to \<open>a\<close> to \<open>z\<close> and keeps every other character, and stripping
  diacritics changes nothing: ASCII text is its own normal form and has no combining
  mark. The two functions are not meant for a string with a character outside ASCII.
\<close>

definition asciiLowerCase_char :: "char \<Rightarrow> char" where
  "asciiLowerCase_char c =
     (let n = (of_char c :: nat) in if 65 \<le> n \<and> n \<le> 90 then char_of (n + 32) else c)"

definition asciiLowerCase :: "string \<Rightarrow> string" where
  "asciiLowerCase s = map asciiLowerCase_char s"

definition asciiStripDiacritics :: "string \<Rightarrow> string" where
  "asciiStripDiacritics s = s"

section \<open>Value formatter (TxDataRow, generateDataRowValue)\<close>

text \<open>
  Modelled from the spec: \<open>hexDataLength\<close> is imported from \<open>ethers/lib/utils\<close> and is
  not among the sources. The spec: \<open>rawData\<close> "renders byte length (computed from hex
  string length)". The model is the library's function on a string argument (ethers 5):
  \<^verbatim>\<open>if (!isHexString(data) || (data.length % 2)) return null;
  return (data.length - 2) / 2\<close>, where \<open>isHexString\<close> matches the string against
  \<^verbatim>\<open>/^0x[0-9A-Fa-f]*$/\<close>. \<open>None\<close> is the library's \<open>null\<close>.
\<close>

definition isHexDigit :: "char \<Rightarrow> bool" where
  "isHexDigit c = (c \<in> set ''0123456789ABCDEFabcdef'')"

definition isHexString :: "string \<Rightarrow> bool" where
  "isHexString data = (take 2 data = ''0x'' \<and> list_all isHexDigit (drop 2 data))"

definition hexDataLength :: "string \<Rightarrow> nat option" where
  "hexDataLength data =
     (if \<not> isHexString data \<or> length data mod 2 \<noteq> 0 then None
      else Some ((length data - 2) div 2))"

text \<open>The type tag: \<open>'hash' | 'rawData' | 'address' | 'bytes'\<close>.\<close>

datatype DataRowType = T_hash | T_rawData | T_address | T_bytes

text \<open>
  \<open>AddressEx\<close> of the gateway SDK; the formatter reads its optional \<open>name\<close> and
  \<open>logoUri\<close>.
\<close>

record AddressEx =
  ex_value :: string
  ex_name :: "string option"
  ex_logoUri :: "string option"

text \<open>
  The element \<open>generateDataRowValue\<close> returns, with the props it passes. In
  \<open>RawDataRow\<close> the first field is the child of \<^verbatim>\<open><div>{...} bytes</div>\<close>: a number, or
  \<open>null\<close> (which renders as nothing) when \<open>hexDataLength\<close> returns it; the second field
  is the text of the copy button.
\<close>

datatype DataRowValue =
    EthHashInfoRow string "string option" "string option" bool "bool option" bool
  | RawDataRow "nat option" string
  | HexEncodedDataRow nat string
  | TypographyRow string

text \<open>Truthiness of an optional string: present and not empty.\<close>

definition truthy_string :: "string option \<Rightarrow> bool" where
  "truthy_string v = (case v of None \<Rightarrow> False | Some s \<Rightarrow> s \<noteq> [])"

definition rawDataBytes :: "string \<Rightarrow> nat option" where
  "rawDataBytes v = (if v \<noteq> [] then hexDataLength v else Some 0)"

definition generateDataRowValue ::
  "string option \<Rightarrow> DataRowType option \<Rightarrow> bool option \<Rightarrow> AddressEx option \<Rightarrow> DataRowValue option"
where
  "generateDataRowValue v ty hasExplorer addressInfo =
     (case v of
        None \<Rightarrow> None
      | Some s \<Rightarrow>
          (case ty of
             Some T_hash \<Rightarrow>
               (let customAvatar = Option.bind addressInfo ex_logoUri in
                Some (EthHashInfoRow s (Option.bind addressInfo ex_name) customAvatar
                        (truthy_string customAvatar) hasExplorer True))
           | Some T_address \<Rightarrow>
               (let customAvatar = Option.bind addressInfo ex_logoUri in
                Some (EthHashInfoRow s (Option.bind addressInfo ex_name) customAvatar
                        (truthy_string customAvatar) hasExplorer True))
           | Some T_rawData \<Rightarrow> Some (RawDataRow (rawDataBytes s) s)
           | Some T_bytes \<Rightarrow> Some (HexEncodedDataRow 60 s)
           | None \<Rightarrow> Some (TypographyRow s)))"

section \<open>Address input with autocomplete (AddressBookInput)\<close>

text \<open>
  The address book is a JavaScript object from address to name; \<open>Object.entries\<close> lists
  it in insertion order, so it is modelled as an association list.
  \<open>addressBookEntries\<close> turns each pair into an option \<open>{ label: address, name }\<close>.
\<close>

type_synonym AddressBook = "(string \<times> string) list"

record AddressBookEntry =
  label :: string
  name :: string

definition addressBookEntries :: "AddressBook \<Rightarrow> AddressBookEntry list" where
  "addressBookEntries addressBook =
     map (\<lambda>(address, name). \<lparr>label = address, name = name\<rparr>) addressBook"

text \<open>
  Modelled from the spec: \<open>createFilterOptions\<close> is imported from
  \<open>@mui/material/Autocomplete\<close> and is not among the sources. The spec: the component
  "recomputes a filtered suggestion list by substring match", with "case rules as
  configured". Called with only \<open>stringify\<close>, the library keeps its defaults: the input
  and the candidate are lower-cased (\<open>ignoreCase\<close>, JavaScript's \<open>toLowerCase\<close>) and then
  stripped of diacritics (\<open>ignoreAccents\<close>: the string is normalised to NFD and the
  combining marks U+0300 to U+036F are removed), the input is not trimmed, there is no
  limit, and an option matches when its candidate contains the input anywhere
  (\<open>matchFrom: 'any'\<close>, \<^verbatim>\<open>candidate.indexOf(input) > -1\<close>). An input that is empty after
  the two steps filters nothing. The two string functions are parameters of the model,
  \<open>lowerCase\<close> and \<open>stripDiacritics\<close>, so that nothing is fixed about characters outside
  ASCII.
\<close>

definition createFilterOptions ::
  "(string \<Rightarrow> string) \<Rightarrow> (string \<Rightarrow> string) \<Rightarrow> ('o \<Rightarrow> string) \<Rightarrow> 'o list \<Rightarrow> string \<Rightarrow> 'o list"
where
  "createFilterOptions lowerCase stripDiacritics stringify options inputValue =
     (let input = stripDiacritics (lowerCase inputValue) in
      if input = [] then options
      else filter
             (\<lambda>option. String_includes (stripDiacritics (lowerCase (stringify option))) input)
             options)"

text \<open>\<^verbatim>\<open>stringify: (option) => option.name + ' ' + option.label\<close>\<close>

definition abStringify :: "AddressBookEntry \<Rightarrow> string" where
  "abStringify option = name option @ '' '' @ label option"

definition abFilterOptions ::
  "(string \<Rightarrow> string) \<Rightarrow> (string \<Rightarrow> string) \<Rightarrow> AddressBookEntry list \<Rightarrow> string
     \<Rightarrow> AddressBookEntry list"
where
  "abFilterOptions lowerCase stripDiacritics =
     createFilterOptions lowerCase stripDiacritics abStringify"

text \<open>
  The component's props and state. \<open>canAdd\<close> is an optional boolean; \<open>addressValue\<close> is
  the watched form value, absent until the field has one.
\<close>

record AddressBookInput_state =
  addressValue :: "string option"
  isOpen :: bool
  openAddressBook :: bool

definition truthy_bool :: "bool option \<Rightarrow> bool" where
  "truthy_bool b = (b = Some True)"

text \<open>
  \<^verbatim>\<open>!!addressBookEntries.filter((entry) => entry.label.includes(addressValue)).length\<close>
\<close>

definition hasVisibleOptions :: "AddressBookEntry list \<Rightarrow> string option \<Rightarrow> bool" where
  "hasVisibleOptions entries v =
     (length (filter (\<lambda>entry. String_includes (label entry) (ToString v)) entries) \<noteq> 0)"

text \<open>
  What the component renders. The autocomplete gets \<open>value = addressValue || ''\<close>,
  \<open>options = addressBookEntries\<close> and \<open>filterOptions = abFilterOptions\<close>.
  \<open>onOpenListClick\<close> and \<open>onAddressBookClick\<close> are handlers or \<open>undefined\<close>; the fields
  say whether a handler is passed. \<open>unknownAddress\<close> says whether the "This is an unknown
  address" paragraph is rendered, and \<open>entryDialog\<close> holds the \<open>defaultValues\<close>
  (\<open>name\<close>, \<open>address\<close>) of the entry dialog when it is rendered.
\<close>

record AddressBookInput_view =
  autocomplete_value :: string
  options :: "AddressBookEntry list"
  onOpenListClick :: bool
  isAutocompleteOpen :: bool
  onAddressBookClick :: bool
  unknownAddress :: bool
  entryDialog :: "(string \<times> string option) option"

definition AddressBookInput ::
  "bool option \<Rightarrow> AddressBook \<Rightarrow> AddressBookInput_state \<Rightarrow> AddressBookInput_view"
where
  "AddressBookInput canAdd addressBook st =
     (let entries = addressBookEntries addressBook
      in \<lparr>autocomplete_value =
            (if truthy_string (addressValue st) then ToString (addressValue st) else []),
          options = entries,
          onOpenListClick = hasVisibleOptions entries (addressValue st),
          isAutocompleteOpen = isOpen st,
          onAddressBookClick = truthy_bool canAdd,
          unknownAddress = truthy_bool canAdd,
          entryDialog = (if openAddressBook st then Some ([], addressValue st) else None)\<rparr>)"

text \<open>
  The handlers. \<open>onInputChange\<close> stores the typed value in the form; a click on the link
  of the unknown-address paragraph calls \<open>onAddressBookClick\<close>, which is
  \<open>setOpenAddressBook(true)\<close> when \<open>canAdd\<close> is truthy and no handler otherwise; the
  dialog's \<open>handleClose\<close> is \<open>setOpenAddressBook(false)\<close>.
\<close>

definition onInputChange :: "string \<Rightarrow> AddressBookInput_state \<Rightarrow> AddressBookInput_state" where
  "onInputChange v st = st\<lparr>addressValue := Some v\<rparr>"

definition clickAddToAddressBook ::
  "bool option \<Rightarrow> AddressBookInput_state \<Rightarrow> AddressBookInput_state"
where
  "clickAddToAddressBook canAdd st =
     (if truthy_bool canAdd then st\<lparr>openAddressBook := True\<rparr> else st)"

definition handleClose :: "AddressBookInput_state \<Rightarrow> AddressBookInput_state" where
  "handleClose st = st\<lparr>openAddressBook := False\<rparr>"

definition handleOpenAutocomplete :: "AddressBookInput_state \<Rightarrow> AddressBookInput_state" where
  "handleOpenAutocomplete st = st\<lparr>isOpen := \<not> isOpen st\<rparr>"

section \<open>Owner-change review (ReviewOwner)\<close>

text \<open>
  The flow parameters: \<open>newOwner\<close> and the optional \<open>removedOwner\<close> are objects with an
  \<open>address\<close> and an optional \<open>name\<close>; \<open>threshold\<close> is a number. \<open>object_id\<close> is not
  a field of the source object: it is the identity of the object, which is what
  \<open>Object.is\<close> compares. A new object has a new identity, also when its fields are
  those of an earlier one; an object changed in place keeps its identity.
\<close>

record OwnerParam =
  object_id :: nat
  owner_address :: string
  owner_name :: "string option"

record ReviewOwner_params =
  newOwner :: OwnerParam
  removedOwner :: "OwnerParam option"
  threshold :: int

text \<open>
  The two builders of \<open>@/services/tx/tx-sender\<close> with the arguments the effect passes:
  \<open>createSwapOwnerTx({ newOwnerAddress, oldOwnerAddress })\<close> and
  \<open>createAddOwnerTx({ ownerAddress, threshold })\<close>. The service is outside the component:
  it is a parameter that answers a request with a transaction (\<open>Inr\<close>, the promise
  resolves) or an error (\<open>Inl\<close>, it rejects).
\<close>

datatype TxSenderRequest =
    createSwapOwnerTx string string
  | createAddOwnerTx string int

text \<open>What the effect does, in order: the builder it calls, then the setter of the
  context (\<open>SafeTxContext\<close>) it calls with the outcome.\<close>

datatype ('e, 'tx) ReviewOwner_call =
    callTxSender TxSenderRequest
  | setSafeTx 'tx
  | setSafeTxError 'e

definition ownerTxRequest :: "ReviewOwner_params \<Rightarrow> TxSenderRequest" where
  "ownerTxRequest params =
     (case removedOwner params of
        Some removed \<Rightarrow>
          createSwapOwnerTx (owner_address (newOwner params)) (owner_address removed)
      | None \<Rightarrow> createAddOwnerTx (owner_address (newOwner params)) (threshold params))"

text \<open>\<open>promise.then(setSafeTx).catch(setSafeTxError)\<close>\<close>

definition settle :: "'e + 'tx \<Rightarrow> ('e, 'tx) ReviewOwner_call" where
  "settle outcome = (case outcome of Inr tx \<Rightarrow> setSafeTx tx | Inl err \<Rightarrow> setSafeTxError err)"

definition ReviewOwner_effect ::
  "(TxSenderRequest \<Rightarrow> 'e + 'tx) \<Rightarrow> ReviewOwner_params \<Rightarrow> ('e, 'tx) ReviewOwner_call list"
where
  "ReviewOwner_effect txSender params =
     (let request = ownerTxRequest params
      in [callTxSender request, settle (txSender request)])"

text \<open>
  The effect's dependency array is \<open>[removedOwner, newOwner, threshold, setSafeTx,
  setSafeTxError]\<close>; the two setters are the context's and do not change. React keeps the
  array of the render before and compares it with the new one element by element, with
  \<open>Object.is\<close>: two objects are the same when they have the same identity, an absent
  \<open>removedOwner\<close> is the same as an absent one only, and two thresholds are the same
  when they are the same number. \<open>ReviewOwner_deps\<close> is the array as \<open>Object.is\<close> sees
  it: identities for the two objects, the number for the threshold.
\<close>

type_synonym ReviewOwner_deps = "nat option \<times> nat \<times> int"

definition ReviewOwner_deps :: "ReviewOwner_params \<Rightarrow> ReviewOwner_deps" where
  "ReviewOwner_deps params =
     (map_option object_id (removedOwner params), object_id (newOwner params),
      threshold params)"

text \<open>
  React runs an effect after the first render (there is no earlier array) and after a
  render in which some element of the array is not the same as in the render before.
\<close>

definition useEffect_runs :: "ReviewOwner_deps option \<Rightarrow> ReviewOwner_deps \<Rightarrow> bool" where
  "useEffect_runs previous deps =
     (case previous of
        None \<Rightarrow> True
      | Some (removed', new', threshold') \<Rightarrow>
          (case deps of (removed, new, thr) \<Rightarrow>
             removed' \<noteq> removed \<or> new' \<noteq> new \<or> threshold' \<noteq> thr))"

text \<open>
  One render of the component: the calls of the effect when it runs, and the dependency
  array React keeps for the next render.
\<close>

definition ReviewOwner_commit ::
  "(TxSenderRequest \<Rightarrow> 'e + 'tx) \<Rightarrow> ReviewOwner_deps option \<Rightarrow> ReviewOwner_params
     \<Rightarrow> ('e, 'tx) ReviewOwner_call list \<times> ReviewOwner_deps option"
where
  "ReviewOwner_commit txSender previous params =
     (if useEffect_runs previous (ReviewOwner_deps params)
      then ReviewOwner_effect txSender params else [],
      Some (ReviewOwner_deps params))"

section \<open>Transaction sign form (SignForm)\<close>

text \<open>A JavaScript \<open>Error\<close>; the handler reads its \<open>message\<close>.\<close>

record JsError =
  message :: string

text \<open>
  The props: the optional transaction, the optional flow id \<open>txId\<close> and \<open>origin\<close>, and
  \<open>disableSubmit\<close> (default \<open>false\<close>). \<open>onSubmit\<close> is the caller's callback; the model
  records a call to it.
\<close>

record 'tx SignForm_props =
  safeTx :: "'tx option"
  txId :: "string option"
  disableSubmit :: bool
  origin :: "string option"

record SignForm_state =
  isSubmittable :: bool
  submitError :: "JsError option"

text \<open>The initial state: \<open>useState(true)\<close> and \<open>useState()\<close>.\<close>

definition SignForm_init :: SignForm_state where
  "SignForm_init = \<lparr>isSubmittable = True, submitError = None\<rparr>"

text \<open>The code of \<open>@/services/exceptions\<close> the handler logs with: \<open>Errors._804\<close>.\<close>

datatype Errors = Errors_804

text \<open>
  The calls \<open>handleSubmit\<close> makes, in order. \<open>setTxFlow\<close> is only ever called with
  \<open>undefined\<close>, which closes the modal flow.
\<close>

datatype 'tx SignForm_call =
    preventDefault
  | setIsSubmittable bool
  | setSubmitError "JsError option"
  | signTx "'tx option" "string option" "string option"
  | setTxFlow_undefined
  | logError Errors string
  | onSubmit

text \<open>
  \<open>handleSubmit\<close>. The signing action of \<open>useTxActions\<close> is a parameter: it resolves
  (\<open>Inr ()\<close>) or rejects with an error (\<open>Inl\<close>), which the \<open>catch\<close> branch handles and
  then returns before \<open>onSubmit()\<close>.
\<close>

definition handleSubmit ::
  "('tx option \<Rightarrow> string option \<Rightarrow> string option \<Rightarrow> JsError + unit) \<Rightarrow> 'tx SignForm_props
     \<Rightarrow> 'tx SignForm_call list"
where
  "handleSubmit signTx_action props =
     [preventDefault, setIsSubmittable False, setSubmitError None,
      signTx (safeTx props) (txId props) (origin props)]
     @ (case signTx_action (safeTx props) (txId props) (origin props) of
          Inr _ \<Rightarrow> [setTxFlow_undefined, onSubmit]
        | Inl err \<Rightarrow> [logError Errors_804 (message err), setIsSubmittable True,
                       setSubmitError (Some err)])"

text \<open>The effect of a call on the form state: only the two state setters change it.\<close>

fun SignForm_set :: "SignForm_state \<Rightarrow> 'tx SignForm_call \<Rightarrow> SignForm_state" where
  "SignForm_set st (setIsSubmittable b) = st\<lparr>isSubmittable := b\<rparr>"
| "SignForm_set st (setSubmitError e) = st\<lparr>submitError := e\<rparr>"
| "SignForm_set st _ = st"

definition handleSubmit_state ::
  "('tx option \<Rightarrow> string option \<Rightarrow> string option \<Rightarrow> JsError + unit) \<Rightarrow> 'tx SignForm_props
     \<Rightarrow> SignForm_state \<Rightarrow> SignForm_state"
where
  "handleSubmit_state signTx_action props st =
     foldl SignForm_set st (handleSubmit signTx_action props)"

text \<open>
  The render. \<open>isOwner\<close> is the result of \<open>useIsSafeOwner\<close>, \<open>isOk\<close> the argument
  \<open>CheckWallet\<close> gives its child.
\<close>

definition cannotPropose :: "bool \<Rightarrow> bool" where
  "cannotPropose isOwner = (\<not> isOwner)"

definition submitDisabled :: "'tx SignForm_props \<Rightarrow> SignForm_state \<Rightarrow> bool \<Rightarrow> bool" where
  "submitDisabled props st isOwner =
     (safeTx props = None \<or> \<not> isSubmittable st \<or> disableSubmit props \<or> cannotPropose isOwner)"

datatype SignForm_message =
    NotOwnerMessage
  | SubmitErrorMessage JsError
  | NoMessage

record SignForm_view =
  shown_message :: SignForm_message
  button_disabled :: bool

definition SignForm :: "'tx SignForm_props \<Rightarrow> SignForm_state \<Rightarrow> bool \<Rightarrow> bool \<Rightarrow> SignForm_view" where
  "SignForm props st isOwner isOk =
     \<lparr>shown_message =
        (if isSubmittable st \<and> cannotPropose isOwner then NotOwnerMessage
         else (case submitError st of Some err \<Rightarrow> SubmitErrorMessage err | None \<Rightarrow> NoMessage)),
      button_disabled = (\<not> isOk \<or> submitDisabled props st isOwner)\<rparr>"

section \<open>Social login orchestration (SocialWalletService and its test)\<close>

text \<open>
  The status enum of the MPC SDK, and the wallet state enum of \<open>../interfaces\<close>
  (\<open>MPCWalletState.NOT_INITIALIZED\<close> is written \<open>WALLET_NOT_INITIALIZED\<close>, the name being
  taken by the SDK's status).
\<close>

datatype COREKIT_STATUS = NOT_INITIALIZED | INITIALIZED | REQUIRED_SHARE | LOGGED_IN

datatype MPCWalletState = WALLET_NOT_INITIALIZED | AUTHENTICATING | MANUAL_RECOVERY | READY

text \<open>
  \<open>MockMPCCoreKit\<close>, the test's stand-in for the SDK. \<open>'u\<close> is the user info, \<open>'k\<close> a
  factor key (a \<open>BN\<close>, compared with \<open>eq\<close>). \<open>commitChanges\<close> is a \<open>jest.fn\<close>; the model
  counts its calls.
\<close>

record ('u, 'k) MockMPCCoreKit =
  status :: COREKIT_STATUS
  userInfo :: "'u option"
  stateAfterLogin :: COREKIT_STATUS
  userInfoAfterLogin :: "'u option"
  expectedFactorKey :: 'k
  commitChanges_calls :: nat

definition new_MockMPCCoreKit :: "COREKIT_STATUS \<Rightarrow> 'u option \<Rightarrow> 'k \<Rightarrow> ('u, 'k) MockMPCCoreKit" where
  "new_MockMPCCoreKit after info expected =
     \<lparr>status = INITIALIZED, userInfo = None, stateAfterLogin = after,
      userInfoAfterLogin = info, expectedFactorKey = expected, commitChanges_calls = 0\<rparr>"

text \<open>\<open>loginWithOauth\<close> resolves once the mock timer has run; by then it has set the
  status and the user info.\<close>

definition loginWithOauth :: "('u, 'k) MockMPCCoreKit \<Rightarrow> ('u, 'k) MockMPCCoreKit" where
  "loginWithOauth kit = kit\<lparr>status := stateAfterLogin kit, userInfo := userInfoAfterLogin kit\<rparr>"

text \<open>
  \<open>inputFactorKey\<close>: with the expected key the status becomes \<open>LOGGED_IN\<close>. With another
  key the mock creates a rejected promise but does not return it, so the caller's
  \<open>await\<close> goes on and nothing changes.
\<close>

definition inputFactorKey :: "'k \<Rightarrow> ('u, 'k) MockMPCCoreKit \<Rightarrow> ('u, 'k) MockMPCCoreKit" where
  "inputFactorKey factorKey kit =
     (if factorKey = expectedFactorKey kit then kit\<lparr>status := LOGGED_IN\<rparr> else kit)"

definition commitChanges :: "('u, 'k) MockMPCCoreKit \<Rightarrow> ('u, 'k) MockMPCCoreKit" where
  "commitChanges kit = kit\<lparr>commitChanges_calls := Suc (commitChanges_calls kit)\<rparr>"

definition getUserInfo :: "('u, 'k) MockMPCCoreKit \<Rightarrow> 'u option" where
  "getUserInfo kit = userInfo kit"

text \<open>
  Modelled from the spec: the class \<open>SocialWalletService\<close> (\<open>../SocialWalletService\<close>) is
  not among the sources; only its test is. The service holds the SDK object and the
  wallet state, which the test reads as \<open>walletState\<close> and expects to be
  \<open>NOT_INITIALIZED\<close> at first. \<open>setOnConnect\<close> installs the connected callback, a
  \<open>jest.fn\<close> in the test; the model counts its calls.
\<close>

record ('u, 'k) SocialWalletService =
  walletState :: MPCWalletState
  mpcCoreKit :: "('u, 'k) MockMPCCoreKit"
  onConnect_calls :: nat

definition new_SocialWalletService :: "('u, 'k) MockMPCCoreKit \<Rightarrow> ('u, 'k) SocialWalletService" where
  "new_SocialWalletService kit =
     \<lparr>walletState = WALLET_NOT_INITIALIZED, mpcCoreKit = kit, onConnect_calls = 0\<rparr>"

text \<open>
  Modelled from the spec: the end of a login in \<open>SocialWalletService\<close>, which is not among
  the sources. The spec: \<open>READY\<close> is "full login + committed session", the "recovery flow
  must not mark ready until the MPC SDK reports a fully logged-in status", and on a full
  login the session commit is invoked once and the connected callback fires once.
\<close>

definition finalizeLogin :: "('u, 'k) SocialWalletService \<Rightarrow> ('u, 'k) SocialWalletService" where
  "finalizeLogin s =
     (if status (mpcCoreKit s) = LOGGED_IN
      then s\<lparr>mpcCoreKit := commitChanges (mpcCoreKit s),
             onConnect_calls := Suc (onConnect_calls s),
             walletState := READY\<rparr>
      else s)"

text \<open>
  Modelled from the spec: \<open>SocialWalletService.loginAndCreate\<close>, which is not among the
  sources. The spec: "NOT_INITIALIZED \<open>\<rightarrow>\<close> AUTHENTICATING (on login start) \<open>\<rightarrow>\<close> one of
  {READY (full login + committed session), MANUAL_RECOVERY (a second factor is required and
  no automatic device factor was found)}"; "device-share recovery is attempted
  automatically before prompting for manual recovery". The first argument is what
  \<open>getWebBrowserFactor\<close> finds (the test mocks it), as a factor key. The result is the
  status of the SDK, as the test expects of the returned promise. Where the spec says
  nothing (a device factor that the SDK does not accept) the model prompts for manual
  recovery; a status after login other than the two of the spec leaves the state as it is.
\<close>

definition loginAndCreate ::
  "'k option \<Rightarrow> ('u, 'k) SocialWalletService \<Rightarrow> COREKIT_STATUS \<times> ('u, 'k) SocialWalletService"
where
  "loginAndCreate deviceFactor s =
     (let s1 = s\<lparr>walletState := AUTHENTICATING\<rparr>;
          s2 = s1\<lparr>mpcCoreKit := loginWithOauth (mpcCoreKit s1)\<rparr>;
          s3 = (if status (mpcCoreKit s2) = REQUIRED_SHARE then
                  (case deviceFactor of
                     None \<Rightarrow> s2\<lparr>walletState := MANUAL_RECOVERY\<rparr>
                   | Some factorKey \<Rightarrow>
                       (let s' = s2\<lparr>mpcCoreKit := inputFactorKey factorKey (mpcCoreKit s2)\<rparr>
                        in if status (mpcCoreKit s') = LOGGED_IN then finalizeLogin s'
                           else s'\<lparr>walletState := MANUAL_RECOVERY\<rparr>))
                else finalizeLogin s2)
      in (status (mpcCoreKit s3), s3))"

text \<open>
  Modelled from the spec: \<open>SocialWalletService.recoverAccountWithPassword\<close>, which is not
  among the sources. The spec: "derive a candidate key from a user-supplied password via a
  security-question mechanism; on wrong answer, the underlying mechanism signals failure
  and the orchestration rejects without changing state or firing the connected callback;
  on correct answer, the candidate key is submitted to the SDK, the session is committed,
  and the connected callback fires". The first argument is \<open>recoverFactor\<close> of the
  mechanism (\<open>TssSecurityQuestion\<close>, mocked by the test): an error (\<open>Inl\<close>, it throws) or a
  factor key. The result is the rejection (\<open>Inl\<close>) or the resolution of the returned
  promise. The spec says nothing of the second parameter of the call, which the test passes
  as \<open>false\<close>.
\<close>

definition recoverAccountWithPassword ::
  "(string \<Rightarrow> JsError + 'k) \<Rightarrow> string \<Rightarrow> bool \<Rightarrow> ('u, 'k) SocialWalletService
     \<Rightarrow> (JsError + unit) \<times> ('u, 'k) SocialWalletService"
where
  "recoverAccountWithPassword recoverFactor password storeDeviceShare s =
     (case recoverFactor password of
        Inl err \<Rightarrow> (Inl err, s)
      | Inr factorKey \<Rightarrow>
          (Inr (), finalizeLogin (s\<lparr>mpcCoreKit := inputFactorKey factorKey (mpcCoreKit s)\<rparr>)))"

section \<open>Properties\<close>

subsection \<open>Sidebar navigation\<close>

text \<open>
  C7. For every navigation item, the link target resolved by \<open>getRoute\<close> is the queue
  route when the item's \<open>href\<close> is the history route and the transaction queue or the
  recovery queue is non-empty; when both queues are empty (an absent page counts as empty),
  and for every item whose \<open>href\<close> is not the history route, the target is the item's own
  \<open>href\<close>.
\<close>

theorem getRoute_history_to_queue:
  "(href item = transactions_history routes \<and>
      ((\<exists>rs. page = Some rs \<and> rs \<noteq> []) \<or> recoveryQueue \<noteq> [])
      \<longrightarrow> itemPathname routes page recoveryQueue item = transactions_queue routes)
   \<and> ((page = None \<or> page = Some []) \<and> recoveryQueue = []
      \<longrightarrow> itemPathname routes page recoveryQueue item = href item)
   \<and> (href item \<noteq> transactions_history routes
      \<longrightarrow> itemPathname routes page recoveryQueue item = href item)"
  by (auto simp: itemPathname_def getRoute_def hasQueuedTxs_def hasRecoveryTxs_def
      split: option.splits)

theorem getRoute_history_to_queue_witness:
  "itemPathname
     \<lparr>transactions_history = ''/transactions/history'', transactions_queue = ''/transactions/queue''\<rparr>
     (Some [1::nat]) ([]::nat list)
     \<lparr>href = ''/transactions/history''\<rparr>
     = ''/transactions/queue''
   \<and> itemPathname
     \<lparr>transactions_history = ''/transactions/history'', transactions_queue = ''/transactions/queue''\<rparr>
     (Some ([]::nat list)) ([]::nat list)
     \<lparr>href = ''/transactions/history''\<rparr>
     = ''/transactions/history''
   \<and> itemPathname
     \<lparr>transactions_history = ''/transactions/history'', transactions_queue = ''/transactions/queue''\<rparr>
     (Some [1::nat]) ([2]::nat list)
     \<lparr>href = ''/home''\<rparr>
     = ''/home''"
  using getRoute_history_to_queue
    [of "\<lparr>href = ''/transactions/history''\<rparr>"
        "\<lparr>transactions_history = ''/transactions/history'', transactions_queue = ''/transactions/queue''\<rparr>"
        "Some [1::nat]" "[]::nat list"]
    getRoute_history_to_queue
    [of "\<lparr>href = ''/transactions/history''\<rparr>"
        "\<lparr>transactions_history = ''/transactions/history'', transactions_queue = ''/transactions/queue''\<rparr>"
        "Some ([]::nat list)" "[]::nat list"]
    getRoute_history_to_queue
    [of "\<lparr>href = ''/home''\<rparr>"
        "\<lparr>transactions_history = ''/transactions/history'', transactions_queue = ''/transactions/queue''\<rparr>"
        "Some [1::nat]" "[2]::nat list"]
  by simp

subsection \<open>Value formatter\<close>

lemma hexDataLength_hex:
  assumes "list_all isHexDigit digits" and "even (length digits)"
  shows "hexDataLength (CHR ''0'' # CHR ''x'' # digits) = Some (length digits div 2)"
  using assms by (simp add: hexDataLength_def isHexString_def)

text \<open>
  C4. For a string value rendered with the type tag \<open>rawData\<close>, the byte count shown is
  half the number of hex digits of the value: the empty string shows \<open>0\<close>, and a hex
  string (\<open>0x\<close> followed by an even number of hex digits) shows half the number of its
  digits.
\<close>

theorem rawData_byte_count:
  "generateDataRowValue (Some []) (Some T_rawData) hasExplorer addressInfo
     = Some (RawDataRow (Some 0) [])
   \<and> (list_all isHexDigit digits \<and> even (length digits) \<longrightarrow>
        generateDataRowValue (Some (''0x'' @ digits)) (Some T_rawData) hasExplorer addressInfo
          = Some (RawDataRow (Some (length digits div 2)) (''0x'' @ digits)))"
  by (simp add: generateDataRowValue_def rawDataBytes_def hexDataLength_hex)

theorem rawData_byte_count_witness:
  "list_all isHexDigit ''abCD'' \<and> even (length ''abCD'')
   \<and> generateDataRowValue (Some ''0xabCD'') (Some T_rawData) None None
       = Some (RawDataRow (Some 2) ''0xabCD'')"
proof -
  have h: "list_all isHexDigit ''abCD'' \<and> even (length ''abCD'')"
    by (simp add: isHexDigit_def)
  from rawData_byte_count [of None None "''abCD''"] h show ?thesis
    by simp
qed

text \<open>
  Outside these inputs \<open>hexDataLength\<close> returns \<open>null\<close> and no number is shown: for a
  non-empty value that is not \<open>0x\<close> followed by hex digits, or that has an odd length.
\<close>

lemma rawData_no_count:
  "v \<noteq> [] \<Longrightarrow> \<not> isHexString v \<or> odd (length v) \<Longrightarrow>
     generateDataRowValue (Some v) (Some T_rawData) hasExplorer addressInfo
       = Some (RawDataRow None v)"
  by (auto simp: generateDataRowValue_def rawDataBytes_def hexDataLength_def
      odd_iff_mod_2_eq_one)

subsection \<open>Address input with autocomplete\<close>

lemma String_includes_iff:
  "String_includes s t \<longleftrightarrow> (\<exists>before after. s = before @ t @ after)"
  by (simp add: String_includes_def sublist_def)

text \<open>
  C5, as the code has it. For every address book and every typed value, the suggestions
  \<open>abFilterOptions\<close> keeps are, in the order of the address book, exactly the entries for
  which the string \<open>name + ' ' + address\<close>, lower-cased and then stripped of diacritics,
  contains the typed value, lower-cased and stripped the same way; a typed value that is
  empty after the two steps keeps every entry. This holds whatever the two string
  functions do.
\<close>

theorem abFilterOptions_suggestions:
  "abFilterOptions lowerCase stripDiacritics (addressBookEntries addressBook) typed =
     filter (\<lambda>entry. stripDiacritics (lowerCase typed) = [] \<or>
               (\<exists>before after.
                  stripDiacritics (lowerCase (name entry @ '' '' @ label entry))
                    = before @ stripDiacritics (lowerCase typed) @ after))
       (addressBookEntries addressBook)"
  by (simp add: abFilterOptions_def createFilterOptions_def abStringify_def Let_def
      String_includes_iff)

text \<open>
  C5 as stated fails in both directions, on ASCII strings. With the entry \<open>0xab\<close> named
  \<open>bob\<close> and the typed value \<open>abbob\<close>, the concatenation of address and name contains
  the typed value but the entry is not suggested; with the entry \<open>0xab\<close> named \<open>Bob\<close> and
  the typed value \<open>B 0\<close>, the concatenation does not contain the typed value but the
  entry is suggested.
\<close>

theorem abFilterOptions_counterexample:
  "String_includes (''0xab'' @ ''bob'') ''abbob''
   \<and> abFilterOptions asciiLowerCase asciiStripDiacritics
        (addressBookEntries [(''0xab'', ''bob'')]) ''abbob'' = []
   \<and> \<not> String_includes (''0xab'' @ ''Bob'') ''B 0''
   \<and> abFilterOptions asciiLowerCase asciiStripDiacritics
        (addressBookEntries [(''0xab'', ''Bob'')]) ''B 0''
       = [\<lparr>label = ''0xab'', name = ''Bob''\<rparr>]"
  by code_simp

lemma hasVisibleOptions_iff:
  "hasVisibleOptions (addressBookEntries addressBook) v \<longleftrightarrow>
     (\<exists>address name before after.
        (address, name) \<in> set addressBook \<and> address = before @ ToString v @ after)"
proof -
  have "hasVisibleOptions (addressBookEntries addressBook) v \<longleftrightarrow>
          (\<exists>entry \<in> set (addressBookEntries addressBook).
             String_includes (label entry) (ToString v))"
    by (simp add: hasVisibleOptions_def filter_empty_conv)
  also have "\<dots> \<longleftrightarrow> (\<exists>(address, name) \<in> set addressBook. String_includes address (ToString v))"
    by (force simp: addressBookEntries_def)
  also have "\<dots> \<longleftrightarrow> (\<exists>address name before after.
        (address, name) \<in> set addressBook \<and> address = before @ ToString v @ after)"
    by (auto simp: String_includes_iff)
  finally show ?thesis .
qed

text \<open>
  C10. The open-suggestion-list handler \<open>onOpenListClick\<close> is passed exactly when some
  entry's address contains the typed value; names are not looked at. The suggestion
  filter does look at names: with the entry \<open>0xab\<close> named \<open>bob\<close> and the typed value
  \<open>bob\<close>, the filter suggests the entry and the handler is not passed.
\<close>

theorem hasVisibleOptions_addresses_only:
  "onOpenListClick (AddressBookInput canAdd addressBook (st\<lparr>addressValue := Some typed\<rparr>))
     = (\<exists>address name before after.
          (address, name) \<in> set addressBook \<and> address = before @ typed @ after)
   \<and> abFilterOptions asciiLowerCase asciiStripDiacritics
        (addressBookEntries [(''0xab'', ''bob'')]) ''bob''
       = [\<lparr>label = ''0xab'', name = ''bob''\<rparr>]
   \<and> \<not> onOpenListClick (AddressBookInput canAdd [(''0xab'', ''bob'')]
            (st\<lparr>addressValue := Some ''bob''\<rparr>))"
proof -
  have shown: "onOpenListClick (AddressBookInput canAdd book (st\<lparr>addressValue := Some v\<rparr>))
     = hasVisibleOptions (addressBookEntries book) (Some v)" for book v
    by (simp add: AddressBookInput_def Let_def)
  have a: "onOpenListClick (AddressBookInput canAdd addressBook (st\<lparr>addressValue := Some typed\<rparr>))
     = (\<exists>address name before after.
          (address, name) \<in> set addressBook \<and> address = before @ typed @ after)"
    using hasVisibleOptions_iff [of addressBook "Some typed"]
    by (simp add: shown ToString_def)
  have b: "abFilterOptions asciiLowerCase asciiStripDiacritics
        (addressBookEntries [(''0xab'', ''bob'')]) ''bob''
       = [\<lparr>label = ''0xab'', name = ''bob''\<rparr>]"
    by code_simp
  have "\<not> hasVisibleOptions (addressBookEntries [(''0xab'', ''bob'')]) (Some ''bob'')"
    by code_simp
  then have c: "\<not> onOpenListClick (AddressBookInput canAdd [(''0xab'', ''bob'')]
            (st\<lparr>addressValue := Some ''bob''\<rparr>))"
    by (simp add: shown)
  from a b c show ?thesis by blast
qed

text \<open>
  C6, as the code has it. The unknown-address paragraph is rendered exactly when \<open>canAdd\<close>
  is true, whatever the typed value and the address book; a click on its link then opens
  the entry dialog with an empty name and the typed value as the address.
\<close>

theorem unknownAddress_iff_canAdd:
  "unknownAddress (AddressBookInput canAdd addressBook st) = (canAdd = Some True)
   \<and> (canAdd = Some True \<longrightarrow>
        entryDialog (AddressBookInput canAdd addressBook (clickAddToAddressBook canAdd st))
          = Some ([], addressValue st))"
  by (simp add: AddressBookInput_def Let_def truthy_bool_def clickAddToAddressBook_def)

theorem unknownAddress_iff_canAdd_witness:
  "unknownAddress (AddressBookInput (Some True) [(''0xab'', ''bob'')]
      \<lparr>addressValue = Some ''0xcd'', isOpen = False, openAddressBook = False\<rparr>)
   \<and> entryDialog (AddressBookInput (Some True) [(''0xab'', ''bob'')]
        (clickAddToAddressBook (Some True)
           \<lparr>addressValue = Some ''0xcd'', isOpen = False, openAddressBook = False\<rparr>))
       = Some ([], Some ''0xcd'')"
  using unknownAddress_iff_canAdd [of "Some True" "[(''0xab'', ''bob'')]"
      "\<lparr>addressValue = Some ''0xcd'', isOpen = False, openAddressBook = False\<rparr>"]
  by simp

text \<open>
  C6 as stated fails: with \<open>canAdd\<close> true and the typed value \<open>0xab\<close>, which is a key of
  the address book, matches an address and is suggested by the filter, the paragraph is
  rendered all the same.
\<close>

theorem unknownAddress_counterexample:
  "unknownAddress (AddressBookInput (Some True) [(''0xab'', ''bob'')]
      \<lparr>addressValue = Some ''0xab'', isOpen = False, openAddressBook = False\<rparr>)
   \<and> map_of [(''0xab'', ''bob'')] ''0xab'' = Some ''bob''
   \<and> hasVisibleOptions (addressBookEntries [(''0xab'', ''bob'')]) (Some ''0xab'')
   \<and> abFilterOptions asciiLowerCase asciiStripDiacritics
        (addressBookEntries [(''0xab'', ''bob'')]) ''0xab''
       = [\<lparr>label = ''0xab'', name = ''bob''\<rparr>]"
  by code_simp

subsection \<open>Owner-change review\<close>

lemma ReviewOwner_effect_calls:
  "ReviewOwner_effect txSender params =
     [callTxSender
        (case removedOwner params of
           Some removed \<Rightarrow>
             createSwapOwnerTx (owner_address (newOwner params)) (owner_address removed)
         | None \<Rightarrow> createAddOwnerTx (owner_address (newOwner params)) (threshold params)),
      (case txSender
              (case removedOwner params of
                 Some removed \<Rightarrow>
                   createSwapOwnerTx (owner_address (newOwner params)) (owner_address removed)
               | None \<Rightarrow> createAddOwnerTx (owner_address (newOwner params)) (threshold params))
       of Inr tx \<Rightarrow> setSafeTx tx | Inl err \<Rightarrow> setSafeTxError err)]"
  by (simp add: ReviewOwner_effect_def ownerTxRequest_def settle_def Let_def)

lemma ReviewOwner_commit_mount:
  "fst (ReviewOwner_commit txSender None params) = ReviewOwner_effect txSender params"
  by (simp add: ReviewOwner_commit_def useEffect_runs_def)

lemma ReviewOwner_commit_changed:
  assumes "map_option object_id (removedOwner earlier) \<noteq> map_option object_id (removedOwner params)
     \<or> object_id (newOwner earlier) \<noteq> object_id (newOwner params)
     \<or> threshold earlier \<noteq> threshold params"
  shows "fst (ReviewOwner_commit txSender (snd (ReviewOwner_commit txSender before earlier)) params)
     = ReviewOwner_effect txSender params"
  using assms by (auto simp: ReviewOwner_commit_def useEffect_runs_def ReviewOwner_deps_def)

text \<open>
  Where nothing of the three is another object or another number, the effect does not run
  again.
\<close>

lemma ReviewOwner_commit_unchanged:
  assumes "map_option object_id (removedOwner earlier) = map_option object_id (removedOwner params)"
    and "object_id (newOwner earlier) = object_id (newOwner params)"
    and "threshold earlier = threshold params"
  shows "fst (ReviewOwner_commit txSender (snd (ReviewOwner_commit txSender before earlier)) params)
     = []"
  using assms by (simp add: ReviewOwner_commit_def useEffect_runs_def ReviewOwner_deps_def)

text \<open>
  Objects that are not changed in place have the same fields when they have the same
  identity; for such objects, parameters that differ in the removed owner, the new owner
  or the threshold differ for \<open>Object.is\<close> too, and the effect runs again.
\<close>

lemma ReviewOwner_commit_changed_values:
  assumes same: "\<And>a b. object_id a = object_id b \<Longrightarrow> (a :: OwnerParam) = b"
    and differ: "removedOwner earlier \<noteq> removedOwner params
       \<or> newOwner earlier \<noteq> newOwner params \<or> threshold earlier \<noteq> threshold params"
  shows "fst (ReviewOwner_commit txSender (snd (ReviewOwner_commit txSender before earlier)) params)
     = ReviewOwner_effect txSender params"
proof -
  have "map_option object_id (removedOwner earlier) \<noteq> map_option object_id (removedOwner params)"
    if "removedOwner earlier \<noteq> removedOwner params"
    using that same by (cases "removedOwner earlier"; cases "removedOwner params") auto
  moreover have "object_id (newOwner earlier) \<noteq> object_id (newOwner params)"
    if "newOwner earlier \<noteq> newOwner params"
    using that same by blast
  ultimately show ?thesis
    using differ ReviewOwner_commit_changed [of earlier params txSender before] by blast
qed

text \<open>
  C8. On mount (\<open>previous = None\<close>), and on a render whose removed owner, new owner or
  threshold is not the one of the render before (another object for an owner, an owner
  appearing or disappearing, another number for the threshold), the effect calls one
  builder: \<open>createSwapOwnerTx\<close> with the new and the old owner's addresses when a removed
  owner is present, \<open>createAddOwnerTx\<close> with the new owner's address and the threshold
  otherwise. It then calls \<open>setSafeTx\<close> with the transaction when the build succeeds and
  \<open>setSafeTxError\<close> with the error when it fails.
\<close>

theorem ReviewOwner_builds_and_populates:
  assumes "previous = None
     \<or> (\<exists>before earlier.
          previous = snd (ReviewOwner_commit txSender before earlier)
          \<and> (map_option object_id (removedOwner earlier)
                \<noteq> map_option object_id (removedOwner params)
             \<or> object_id (newOwner earlier) \<noteq> object_id (newOwner params)
             \<or> threshold earlier \<noteq> threshold params))"
  shows "\<exists>request.
     fst (ReviewOwner_commit txSender previous params) =
       [callTxSender request,
        (case txSender request of Inr tx \<Rightarrow> setSafeTx tx | Inl err \<Rightarrow> setSafeTxError err)]
     \<and> request =
       (case removedOwner params of
          Some removed \<Rightarrow>
            createSwapOwnerTx (owner_address (newOwner params)) (owner_address removed)
        | None \<Rightarrow> createAddOwnerTx (owner_address (newOwner params)) (threshold params))"
proof -
  have "fst (ReviewOwner_commit txSender previous params) = ReviewOwner_effect txSender params"
    using assms
  proof
    assume "previous = None"
    then show ?thesis by (simp add: ReviewOwner_commit_mount)
  next
    assume "\<exists>before earlier.
          previous = snd (ReviewOwner_commit txSender before earlier)
          \<and> (map_option object_id (removedOwner earlier)
                \<noteq> map_option object_id (removedOwner params)
             \<or> object_id (newOwner earlier) \<noteq> object_id (newOwner params)
             \<or> threshold earlier \<noteq> threshold params)"
    then obtain before earlier where
      prev: "previous = snd (ReviewOwner_commit txSender before earlier)" and
      changed: "map_option object_id (removedOwner earlier)
                \<noteq> map_option object_id (removedOwner params)
             \<or> object_id (newOwner earlier) \<noteq> object_id (newOwner params)
             \<or> threshold earlier \<noteq> threshold params"
      by blast
    from ReviewOwner_commit_changed [OF changed, of txSender before] prev
    show ?thesis by simp
  qed
  then show ?thesis
    by (simp add: ReviewOwner_effect_calls)
qed

text \<open>
  Two runs: a mount with a removed owner, where the build succeeds; and a render after a
  mount, with a new owner object that has the fields of the one before and no removed
  owner, where the build fails.
\<close>

theorem ReviewOwner_builds_and_populates_witness:
  "fst (ReviewOwner_commit (\<lambda>request. Inr ''tx'' :: string + string) None
      \<lparr>newOwner = \<lparr>object_id = 1, owner_address = ''0xaa'', owner_name = None\<rparr>,
       removedOwner = Some \<lparr>object_id = 2, owner_address = ''0xbb'', owner_name = None\<rparr>,
       threshold = 2\<rparr>)
     = [callTxSender (createSwapOwnerTx ''0xaa'' ''0xbb''), setSafeTx ''tx'']
   \<and> fst (ReviewOwner_commit (\<lambda>request. Inl ''failed'' :: string + string)
      (snd (ReviewOwner_commit (\<lambda>request. Inl ''failed'' :: string + string) None
         \<lparr>newOwner = \<lparr>object_id = 1, owner_address = ''0xaa'', owner_name = None\<rparr>,
          removedOwner = None,
          threshold = 2\<rparr>))
      \<lparr>newOwner = \<lparr>object_id = 3, owner_address = ''0xaa'', owner_name = None\<rparr>,
       removedOwner = None,
       threshold = 2\<rparr>)
     = [callTxSender (createAddOwnerTx ''0xaa'' 2), setSafeTxError ''failed'']"
proof -
  let ?swap = "\<lparr>newOwner = \<lparr>object_id = 1, owner_address = ''0xaa'', owner_name = None\<rparr>,
       removedOwner = Some \<lparr>object_id = 2, owner_address = ''0xbb'', owner_name = None\<rparr>,
       threshold = 2\<rparr>"
  let ?first = "\<lparr>newOwner = \<lparr>object_id = 1, owner_address = ''0xaa'', owner_name = None\<rparr>,
       removedOwner = None, threshold = 2\<rparr>"
  let ?second = "\<lparr>newOwner = \<lparr>object_id = 3, owner_address = ''0xaa'', owner_name = None\<rparr>,
       removedOwner = None, threshold = 2\<rparr>"
  let ?ok = "\<lambda>request :: TxSenderRequest. Inr ''tx'' :: string + string"
  let ?fail = "\<lambda>request :: TxSenderRequest. Inl ''failed'' :: string + string"
  have a: "fst (ReviewOwner_commit ?ok None ?swap)
     = [callTxSender (createSwapOwnerTx ''0xaa'' ''0xbb''), setSafeTx ''tx'']"
    using ReviewOwner_builds_and_populates [of None ?ok ?swap] by simp
  have "snd (ReviewOwner_commit ?fail None ?first) = None
     \<or> (\<exists>before earlier.
          snd (ReviewOwner_commit ?fail None ?first)
            = snd (ReviewOwner_commit ?fail before earlier)
          \<and> (map_option object_id (removedOwner earlier)
                \<noteq> map_option object_id (removedOwner ?second)
             \<or> object_id (newOwner earlier) \<noteq> object_id (newOwner ?second)
             \<or> threshold earlier \<noteq> threshold ?second))"
    by (rule disjI2, rule exI [of _ None], rule exI [of _ ?first]) simp
  from ReviewOwner_builds_and_populates [OF this]
  have b: "fst (ReviewOwner_commit ?fail (snd (ReviewOwner_commit ?fail None ?first)) ?second)
     = [callTxSender (createAddOwnerTx ''0xaa'' 2), setSafeTxError ''failed'']"
    by simp
  from a b show ?thesis by simp
qed

subsection \<open>Transaction sign form\<close>

lemma handleSubmit_rejected:
  assumes "signTx_action (safeTx props) (txId props) (origin props) = Inl err"
  shows "handleSubmit signTx_action props =
     [preventDefault, setIsSubmittable False, setSubmitError None,
      signTx (safeTx props) (txId props) (origin props),
      logError Errors_804 (message err), setIsSubmittable True, setSubmitError (Some err)]"
  using assms by (simp add: handleSubmit_def)

lemma handleSubmit_resolved:
  assumes "signTx_action (safeTx props) (txId props) (origin props) = Inr u"
  shows "handleSubmit signTx_action props =
     [preventDefault, setIsSubmittable False, setSubmitError None,
      signTx (safeTx props) (txId props) (origin props),
      setTxFlow_undefined, onSubmit]"
  using assms by (simp add: handleSubmit_def)

text \<open>
  C9. Every submission starts with \<open>preventDefault\<close>, \<open>setIsSubmittable(false)\<close> and
  \<open>setSubmitError(undefined)\<close>, then calls \<open>signTx\<close> with the transaction, the flow id and
  the origin. When \<open>signTx\<close> rejects, the handler logs the error's message under
  \<open>Errors._804\<close>, sets \<open>isSubmittable\<close> back to true and stores the error, which the form
  of an owner then shows; it does not call \<open>onSubmit\<close>. When \<open>signTx\<close> resolves, the
  handler closes the modal flow (\<open>setTxFlow(undefined)\<close>) and then calls \<open>onSubmit\<close>.
\<close>

theorem handleSubmit_outcomes:
  "take 4 (handleSubmit signTx_action props) =
     [preventDefault, setIsSubmittable False, setSubmitError None,
      signTx (safeTx props) (txId props) (origin props)]
   \<and> (signTx_action (safeTx props) (txId props) (origin props) = Inl err \<longrightarrow>
        drop 4 (handleSubmit signTx_action props) =
          [logError Errors_804 (message err), setIsSubmittable True, setSubmitError (Some err)]
        \<and> onSubmit \<notin> set (handleSubmit signTx_action props)
        \<and> isSubmittable (handleSubmit_state signTx_action props st)
        \<and> submitError (handleSubmit_state signTx_action props st) = Some err
        \<and> shown_message (SignForm props (handleSubmit_state signTx_action props st) True isOk)
            = SubmitErrorMessage err)
   \<and> (signTx_action (safeTx props) (txId props) (origin props) = Inr () \<longrightarrow>
        drop 4 (handleSubmit signTx_action props) = [setTxFlow_undefined, onSubmit])"
proof -
  have first: "take 4 (handleSubmit signTx_action props) =
     [preventDefault, setIsSubmittable False, setSubmitError None,
      signTx (safeTx props) (txId props) (origin props)]"
    by (simp add: handleSubmit_def)
  have rejected: "drop 4 (handleSubmit signTx_action props) =
          [logError Errors_804 (message err), setIsSubmittable True, setSubmitError (Some err)]
        \<and> onSubmit \<notin> set (handleSubmit signTx_action props)
        \<and> isSubmittable (handleSubmit_state signTx_action props st)
        \<and> submitError (handleSubmit_state signTx_action props st) = Some err
        \<and> shown_message (SignForm props (handleSubmit_state signTx_action props st) True isOk)
            = SubmitErrorMessage err"
    if "signTx_action (safeTx props) (txId props) (origin props) = Inl err"
    using handleSubmit_rejected [of signTx_action props err] that
    by (simp add: handleSubmit_state_def SignForm_def cannotPropose_def)
  have resolved: "drop 4 (handleSubmit signTx_action props) = [setTxFlow_undefined, onSubmit]"
    if "signTx_action (safeTx props) (txId props) (origin props) = Inr ()"
    using handleSubmit_resolved [of signTx_action props "()"] that by simp
  from first rejected resolved show ?thesis by blast
qed

theorem handleSubmit_outcomes_witness:
  "handleSubmit (\<lambda>tx flow orig. Inl \<lparr>message = ''rejected''\<rparr>)
      \<lparr>safeTx = Some (7::nat), txId = Some ''id'', disableSubmit = False, origin = None\<rparr>
     = [preventDefault, setIsSubmittable False, setSubmitError None,
        signTx (Some 7) (Some ''id'') None,
        logError Errors_804 ''rejected'', setIsSubmittable True,
        setSubmitError (Some \<lparr>message = ''rejected''\<rparr>)]
   \<and> handleSubmit (\<lambda>tx flow orig. Inr ())
      \<lparr>safeTx = Some (7::nat), txId = Some ''id'', disableSubmit = False, origin = None\<rparr>
     = [preventDefault, setIsSubmittable False, setSubmitError None,
        signTx (Some 7) (Some ''id'') None, setTxFlow_undefined, onSubmit]"
proof -
  let ?p = "\<lparr>safeTx = Some (7::nat), txId = Some ''id'', disableSubmit = False, origin = None\<rparr>"
  let ?rej = "\<lambda>(tx::nat option) (flow::string option) (orig::string option).
     Inl \<lparr>message = ''rejected''\<rparr> :: JsError + unit"
  let ?res = "\<lambda>(tx::nat option) (flow::string option) (orig::string option).
     Inr () :: JsError + unit"
  have a: "take 4 (handleSubmit ?rej ?p) @ drop 4 (handleSubmit ?rej ?p) =
     [preventDefault, setIsSubmittable False, setSubmitError None,
        signTx (Some 7) (Some ''id'') None,
        logError Errors_804 ''rejected'', setIsSubmittable True,
        setSubmitError (Some \<lparr>message = ''rejected''\<rparr>)]"
    using handleSubmit_outcomes [of ?rej ?p "\<lparr>message = ''rejected''\<rparr>" SignForm_init True]
    by simp
  have b: "take 4 (handleSubmit ?res ?p) @ drop 4 (handleSubmit ?res ?p) =
     [preventDefault, setIsSubmittable False, setSubmitError None,
        signTx (Some 7) (Some ''id'') None, setTxFlow_undefined, onSubmit]"
    using handleSubmit_outcomes [of ?res ?p "\<lparr>message = ''rejected''\<rparr>" SignForm_init True]
    by simp
  from a b show ?thesis by simp
qed

text \<open>
  C1, as the code has it. While the active account is not an owner, \<open>submitDisabled\<close>
  holds through \<open>cannotPropose\<close> and the submit button is rendered disabled whatever the
  wallet check says; the not-owner message is rendered exactly when \<open>isSubmittable\<close> is
  true. The handler itself does not look at the ownership: whenever it is invoked it
  calls \<open>signTx\<close>.
\<close>

theorem SignForm_not_owner_blocked:
  assumes "\<not> isOwner"
  shows "submitDisabled props st isOwner
   \<and> button_disabled (SignForm props st isOwner isOk)
   \<and> (shown_message (SignForm props st isOwner isOk) = NotOwnerMessage) = isSubmittable st
   \<and> signTx (safeTx props) (txId props) (origin props) \<in> set (handleSubmit signTx_action props)"
  using assms
  by (auto simp: SignForm_def submitDisabled_def cannotPropose_def handleSubmit_def
      split: option.splits)

theorem SignForm_not_owner_blocked_witness:
  "button_disabled (SignForm
      \<lparr>safeTx = Some (7::nat), txId = None, disableSubmit = False, origin = None\<rparr>
      SignForm_init False True)
   \<and> shown_message (SignForm
      \<lparr>safeTx = Some (7::nat), txId = None, disableSubmit = False, origin = None\<rparr>
      SignForm_init False True) = NotOwnerMessage"
  using SignForm_not_owner_blocked [of False
      "\<lparr>safeTx = Some (7::nat), txId = None, disableSubmit = False, origin = None\<rparr>"
      SignForm_init True "\<lambda>tx flow orig. Inr ()"]
  by (simp add: SignForm_init_def)

text \<open>
  C1 as stated fails on two counts. An invocation of the handler calls \<open>signTx\<close>: the
  handler has no access to the ownership, so it does the same for an account that is not
  an owner (\<open>cannotPropose\<close>). And for such an account no message is rendered while
  \<open>isSubmittable\<close> is false and no error is stored.
\<close>

theorem SignForm_not_owner_counterexample:
  "signTx (Some (7::nat)) None None
     \<in> set (handleSubmit (\<lambda>tx flow orig. Inr ())
          \<lparr>safeTx = Some 7, txId = None, disableSubmit = False, origin = None\<rparr>)
   \<and> cannotPropose False
   \<and> shown_message (SignForm
        \<lparr>safeTx = Some (7::nat), txId = None, disableSubmit = False, origin = None\<rparr>
        \<lparr>isSubmittable = False, submitError = None\<rparr> False True) = NoMessage"
  by (simp add: handleSubmit_def cannotPropose_def SignForm_def)

subsection \<open>Social login orchestration\<close>

text \<open>
  C2. When the SDK's status after login is \<open>REQUIRED_SHARE\<close> and no device factor is
  found, \<open>loginAndCreate\<close> returns \<open>REQUIRED_SHARE\<close> and leaves the wallet state at
  \<open>MANUAL_RECOVERY\<close>; the connected callback and \<open>commitChanges\<close> have not been called.
\<close>

theorem loginAndCreate_manual_recovery:
  assumes "stateAfterLogin (mpcCoreKit s) = REQUIRED_SHARE"
  shows "fst (loginAndCreate None s) = REQUIRED_SHARE
   \<and> walletState (snd (loginAndCreate None s)) = MANUAL_RECOVERY
   \<and> onConnect_calls (snd (loginAndCreate None s)) = onConnect_calls s
   \<and> commitChanges_calls (mpcCoreKit (snd (loginAndCreate None s)))
       = commitChanges_calls (mpcCoreKit s)"
  using assms by (simp add: loginAndCreate_def loginWithOauth_def Let_def)

theorem loginAndCreate_manual_recovery_witness:
  "walletState (snd (loginAndCreate None
      (new_SocialWalletService
         (new_MockMPCCoreKit REQUIRED_SHARE (Some ''test@test.com'') (1::int)))))
     = MANUAL_RECOVERY
   \<and> onConnect_calls (snd (loginAndCreate None
      (new_SocialWalletService
         (new_MockMPCCoreKit REQUIRED_SHARE (Some ''test@test.com'') (1::int)))))
     = 0
   \<and> commitChanges_calls (mpcCoreKit (snd (loginAndCreate None
      (new_SocialWalletService
         (new_MockMPCCoreKit REQUIRED_SHARE (Some ''test@test.com'') (1::int))))))
     = 0"
  using loginAndCreate_manual_recovery [of
      "new_SocialWalletService
         (new_MockMPCCoreKit REQUIRED_SHARE (Some ''test@test.com'') (1::int))"]
  by (simp add: new_SocialWalletService_def new_MockMPCCoreKit_def)

text \<open>
  C3. When the security-question mechanism rejects the answer, \<open>recoverAccountWithPassword\<close>
  rejects with the mechanism's error and the service is as before: the wallet state is
  unchanged, and neither the connected callback nor \<open>commitChanges\<close> has been called.
\<close>

theorem recoverAccountWithPassword_wrong_answer:
  assumes "recoverFactor password = Inl err"
  shows "fst (recoverAccountWithPassword recoverFactor password storeDeviceShare s) = Inl err
   \<and> snd (recoverAccountWithPassword recoverFactor password storeDeviceShare s) = s
   \<and> walletState (snd (recoverAccountWithPassword recoverFactor password storeDeviceShare s))
       = walletState s
   \<and> onConnect_calls (snd (recoverAccountWithPassword recoverFactor password storeDeviceShare s))
       = onConnect_calls s
   \<and> commitChanges_calls
       (mpcCoreKit (snd (recoverAccountWithPassword recoverFactor password storeDeviceShare s)))
       = commitChanges_calls (mpcCoreKit s)"
  using assms by (simp add: recoverAccountWithPassword_def)

theorem recoverAccountWithPassword_wrong_answer_witness:
  "recoverAccountWithPassword (\<lambda>password. Inl \<lparr>message = ''Invalid answer''\<rparr>) ''test'' False
      (new_SocialWalletService (new_MockMPCCoreKit INITIALIZED (None :: string option) (1::int)))
     = (Inl \<lparr>message = ''Invalid answer''\<rparr>,
        new_SocialWalletService (new_MockMPCCoreKit INITIALIZED None 1))"
  using recoverAccountWithPassword_wrong_answer [of
      "\<lambda>password. Inl \<lparr>message = ''Invalid answer''\<rparr>" "''test''"
      "\<lparr>message = ''Invalid answer''\<rparr>" False
      "new_SocialWalletService (new_MockMPCCoreKit INITIALIZED (None :: string option) (1::int))"]
  by (simp add: prod_eq_iff)

end
